theory Spec2Isabelle
  imports Main "HOL-Library.Extended_Nat" "HOL-Library.Code_Target_Nat"
begin

section \<open>The playback-lifecycle hook \<open>useStream\<close>\<close>

text \<open>
  A shallow embedding of \<^verbatim>\<open>src/src/stream/useStream.ts\<close>. The hook's React state, its
  refs and the part of the outside world it drives (the player handles, their listeners)
  are the fields of one record that every operation takes and returns. What the external
  player and the other stores decide (the captured frame, whether stop or destroy rejects,
  which event settles the first-frame race, the status a player reports) is an explicit
  argument of the operation that asks for it.
\<close>

subsection \<open>Data model\<close>

type_synonym handle = nat

text \<open>\<^verbatim>\<open>PlayerStatus\<close> and the five members of \<^verbatim>\<open>PlayerEventType\<close> the hook subscribes to.\<close>

datatype PlayerStatus =
  STOPPED | DESTROYING | DESTROYED | LOADING | LOADED | PLAYING | PLAYED | PAUSED
  | CHANGING | SEEKING

datatype PlayerEventType =
  ON_FIRST_VIDEO_RENDERED | ON_STOPPED | ON_ENDED | ON_ERROR | ON_QUALITY_CHANGE

text \<open>
  The setting store's \<^verbatim>\<open>videoQuality\<close>: the string \<^verbatim>\<open>'AUTO'\<close> or a number. A tier is a
  JavaScript number; the model takes the integers, negative ones included.
\<close>

datatype VideoQuality = AUTO | Tier int

text \<open>The only field of \<^verbatim>\<open>QualityEvent\<close> the hook reads is the optional \<^verbatim>\<open>to\<close>.\<close>

record QualityEvent =
  currentQuality :: int
  to :: "int option"

text \<open>
  The errors an attempt can end with: the three \<^verbatim>\<open>new Error(...)\<close> of the hook and whatever
  the player rejects or emits with.
\<close>

datatype error =
  NetworkConditions   \<comment> \<open>\<^verbatim>\<open>'Network conditions not suitable for playing video'\<close>\<close>
  | FirstFrameTimeout \<comment> \<open>\<^verbatim>\<open>'First frame timeout'\<close>\<close>
  | NotInitialized    \<comment> \<open>\<^verbatim>\<open>'Player is not initialized'\<close>\<close>
  | PlayerError string

text \<open>
  The object literal \<^verbatim>\<open>{ isVisible, isIdleTimeout, isMultiSession, isExpired, isMaintenance,
  snapshot }\<close>. The hook holds it twice: as the values of the current render (the stores and
  the \<^verbatim>\<open>useState\<close> snapshot) and as \<^verbatim>\<open>stateRefs.current\<close>, which an effect copies from
  the render values after each change.
\<close>

record TriggerSnapshot =
  isVisible :: bool
  isIdleTimeout :: bool
  isMultiSession :: bool
  isExpired :: bool
  isMaintenance :: bool
  snapshot :: string

text \<open>
  The closures the hook registers on a player. The quality-mode callback closes over the
  \<^verbatim>\<open>settingQuality\<close> and \<^verbatim>\<open>streamQuality\<close> of the render that created
  \<^verbatim>\<open>regQualityModeCallback\<close> (dependencies at line 204). So does the first-frame listener
  of an attempt: it calls the \<^verbatim>\<open>registerPlayerCallbacks\<close> of the render whose
  \<^verbatim>\<open>doDestroyAndPlay\<close> started the attempt (dependencies at lines 231, 276, 313 and 381),
  and that one calls the \<^verbatim>\<open>regQualityModeCallback\<close> of the same render.
\<close>

datatype listener =
  OnFirstFrame VideoQuality int | OnError | Restart | QualityMode VideoQuality int

text \<open>What the hook does to the outside, in order.\<close>

datatype action =
  Construct handle
  | Load handle string
  | Stop handle
  | Destroy handle
  | Resume handle
  | ConfigQualityMode handle int nat
  | Sleep100
  | Sleep50
  | SleepRetryDelay "nat option"
  | AttemptLog nat
  | FirstFrameLog handle
  | SetSnapshot string
  | CallOnPlay
  | CallOnStop
  | CallOnError error

record UseStreamConfig =
  retryDelay :: "nat option"
  maxRetries :: enat
  onPlay :: bool
  onStop :: bool
  onError :: bool

record hook =
  render :: TriggerSnapshot
  stateRefs :: TriggerSnapshot
  isLoading :: bool
  isInit :: bool
  videoEl :: bool
  settingQuality :: VideoQuality
  streamQuality :: int
  streams :: "(string \<times> string) list option"
  player :: "handle option"
  isDoDestroyAndPlayRunning :: bool
  isCanStream :: bool
  status :: "handle \<Rightarrow> PlayerStatus"
  live :: "handle list"
  created :: nat
  listeners :: "(handle \<times> PlayerEventType \<times> listener) list"
  log :: "action list"

subsection \<open>Snapshot freeze\<close>

definition say :: "action \<Rightarrow> hook \<Rightarrow> hook" where
  "say a s = s\<lparr>log := log s @ [a]\<rparr>"

definition setSnapshot :: "string \<Rightarrow> hook \<Rightarrow> hook" where
  "setSnapshot v s = say (SetSnapshot v) (s\<lparr>render := (render s)\<lparr>snapshot := v\<rparr>\<rparr>)"

text \<open>The effect of lines 425--427: \<^verbatim>\<open>stateRefs.current = { isVisible, ..., snapshot }\<close>.\<close>

definition syncStateRefs :: "hook \<Rightarrow> hook" where
  "syncStateRefs s = s\<lparr>stateRefs := render s\<rparr>"

text \<open>
  \<^verbatim>\<open>await sleep(...)\<close>: a timer. React commits the pending state updates and runs the effect
  above before a timer fires, so the mirror is current again when the function resumes.
\<close>

definition sleep :: "action \<Rightarrow> hook \<Rightarrow> hook" where
  "sleep a s = syncStateRefs (say a s)"

definition isPlaying :: "hook \<Rightarrow> bool" where
  "isPlaying s =
     (case player s of
        None \<Rightarrow> False
      | Some p \<Rightarrow> status s p = PLAYING \<or> status s p = PLAYED)"

text \<open>
  \<^verbatim>\<open>getSnapshot\<close>: the empty string without a player; otherwise the frame the player
  returns, where the empty string also stands for a \<^verbatim>\<open>snapshot\<close> call that threw.
\<close>

definition getSnapshot :: "string \<Rightarrow> hook \<Rightarrow> string" where
  "getSnapshot frame s = (if player s = None then [] else frame)"

definition freezeWithSnapshot :: "string \<Rightarrow> hook \<Rightarrow> hook" where
  "freezeWithSnapshot frame s =
     (if snapshot (stateRefs s) \<noteq> [] then s
      else
        let c = getSnapshot frame s;
            s1 = s\<lparr>isLoading := True\<rparr>
        in if c \<noteq> [] then setSnapshot c s1 else s1)"

subsection \<open>Teardown\<close>

text \<open>
  What the outside world decides during one invocation of \<^verbatim>\<open>doDestroyAndPlay\<close>:
  \<^item> \<open>frame\<close>: what \<^verbatim>\<open>player.current.snapshot(...)\<close> yields (empty when it throws);
  \<^item> \<open>teardown\<close>: whether \<^verbatim>\<open>stop()\<close> or \<^verbatim>\<open>destroy()\<close> of the old player rejects;
  \<^item> \<open>settles\<close>: the event that settles \<^verbatim>\<open>Promise.race\<close>;
  \<^item> \<open>resume\<close>: the error of a rejected \<^verbatim>\<open>resume()\<close>, if any;
  \<^item> \<open>statusAfter\<close>: the status the newly constructed player reports from then on.
\<close>

datatype teardown_result = TeardownOk | StopRejects string | DestroyRejects string

datatype race_event = FirstFrame | ErrorEvent string | LoadOrPlayRejected string | TimerExpired

record attempt_env =
  frame :: string
  teardown :: teardown_result
  settles :: race_event
  resume :: "string option"
  statusAfter :: PlayerStatus

text \<open>
  A function that can throw returns the error or the value, paired with the state it leaves
  behind: what happened before the throw stays.
\<close>

type_synonym 'a result = "(error + 'a) \<times> hook"

fun stopAndDestroy :: "attempt_env \<Rightarrow> handle option \<Rightarrow> hook \<Rightarrow> unit result" where
  "stopAndDestroy env None s = (Inr (), s)"
| "stopAndDestroy env (Some p) s =
     (case teardown env of
        StopRejects e \<Rightarrow> (Inl (PlayerError e), say (Stop p) s)
      | DestroyRejects e \<Rightarrow> (Inl (PlayerError e), say (Destroy p) (say (Stop p) s))
      | TeardownOk \<Rightarrow>
          (Inr (),
           say (Destroy p) (say (Stop p) s)
             \<lparr>live := removeAll p (live s), status := (status s)(p := DESTROYED)\<rparr>))"

text \<open>
  \<^verbatim>\<open>stopVideoWithSnapshot\<close>: the early return leaves a player that is not playing alone
  (neither stopped nor destroyed, and still referenced); \<^verbatim>\<open>finally\<close> drops the reference
  whether or not the teardown threw.
\<close>

definition stopVideoWithSnapshot :: "UseStreamConfig \<Rightarrow> attempt_env \<Rightarrow> hook \<Rightarrow> hook" where
  "stopVideoWithSnapshot cfg env s =
     (let s1 = freezeWithSnapshot (frame env) s in
      if player s1 = None \<or> \<not> isPlaying s1 then s1
      else
        let s2 = sleep Sleep100 s1;
            (r, s3) = stopAndDestroy env (player s2) s2;
            s4 = (case r of
                    Inr _ \<Rightarrow> if onStop cfg then say CallOnStop s3 else s3
                  | Inl e \<Rightarrow> s3)
        in s4\<lparr>player := None\<rparr>)"

subsection \<open>Stream URL and eligibility\<close>

definition QUALITIES :: "string list" where
  "QUALITIES = [''lo'', ''me'', ''hi'', ''hd'']"

text \<open>
  \<^verbatim>\<open>QUALITIES[streamQuality]\<close> used as a property key: a number that is no index of the
  table gives \<^verbatim>\<open>undefined\<close>, and the property read is then the one named
  \<^verbatim>\<open>undefined\<close>.
\<close>

definition streamKey :: "int \<Rightarrow> string" where
  "streamKey q =
     (if 0 \<le> q \<and> q < int (length QUALITIES) then QUALITIES ! nat q else ''undefined'')"

text \<open>
  \<^verbatim>\<open>streams?.primary?.[streamKey] ?? ''\<close>; \<open>streams\<close> is \<open>None\<close> when \<^verbatim>\<open>streams\<close> or
  \<^verbatim>\<open>streams.primary\<close> is missing.
\<close>

definition getStreamUrl :: "hook \<Rightarrow> string" where
  "getStreamUrl s =
     (case streams s of
        None \<Rightarrow> []
      | Some primary \<Rightarrow>
          (case map_of primary (streamKey (streamQuality s)) of None \<Rightarrow> [] | Some u \<Rightarrow> u))"

text \<open>The object \<^verbatim>\<open>shouldSkip\<close> of reasons, in the source's order, and the loop over it.\<close>

definition shouldSkip :: "hook \<Rightarrow> (string \<times> bool) list" where
  "shouldSkip s =
     [(''No stream URL available'', getStreamUrl s = []),
      (''Player not initialized'', \<not> isInit s),
      (''doDestroyAndPlay already running'', isDoDestroyAndPlayRunning s),
      (''Idle timeout active'', isIdleTimeout (stateRefs s)),
      (''Multi-session detected'', isMultiSession (stateRefs s)),
      (''Session expired'', isExpired (stateRefs s)),
      (''Player not visible'', \<not> isVisible (stateRefs s))]"

definition shouldSkipPlay :: "hook \<Rightarrow> bool" where
  "shouldSkipPlay s = list_ex snd (shouldSkip s)"

subsection \<open>Listeners\<close>

definition addListener :: "handle \<Rightarrow> PlayerEventType \<Rightarrow> listener \<Rightarrow> hook \<Rightarrow> hook" where
  "addListener p ev l s = s\<lparr>listeners := listeners s @ [(p, ev, l)]\<rparr>"

text \<open>
  \<^verbatim>\<open>regQualityModeCallback\<close> of a render whose \<^verbatim>\<open>settingQuality\<close> and \<^verbatim>\<open>streamQuality\<close>
  are the second and third argument: the listener it registers holds both, and
  \<^verbatim>\<open>configQualityMode\<close> is called with that \<^verbatim>\<open>streamQuality\<close>.
\<close>

definition regQualityModeCallback :: "handle \<Rightarrow> VideoQuality \<Rightarrow> int \<Rightarrow> hook \<Rightarrow> hook" where
  "regQualityModeCallback p settingQuality' streamQuality' s =
     say (ConfigQualityMode p streamQuality' (length QUALITIES))
       (addListener p ON_QUALITY_CHANGE (QualityMode settingQuality' streamQuality') s)"

text \<open>
  \<^verbatim>\<open>registerPlayerCallbacks\<close> of such a render. \<^verbatim>\<open>doDestroyAndPlayRef.current\<close> is set by
  an effect of the first render, before any player exists, so its null check passes. The
  test for automatic mode reads the store when the function runs
  (\<^verbatim>\<open>useSettingStore.getState()\<close>), not the render's value.
\<close>

definition registerPlayerCallbacks :: "handle \<Rightarrow> VideoQuality \<Rightarrow> int \<Rightarrow> hook \<Rightarrow> hook" where
  "registerPlayerCallbacks p settingQuality' streamQuality' s =
     (let s1 = addListener p ON_ERROR Restart
                 (addListener p ON_ENDED Restart (addListener p ON_STOPPED Restart s))
      in if settingQuality s1 = AUTO
         then regQualityModeCallback p settingQuality' streamQuality' s1 else s1)"

subsection \<open>One attempt\<close>

text \<open>
  The listener \<^verbatim>\<open>onFirstFrame\<close> of an attempt logs, clears the timer, registers the
  steady-state callbacks and resolves; the listener \<^verbatim>\<open>onError\<close> clears the timer and
  rejects. Clearing the timer and settling the promise change nothing of the hook's state:
  what settling means for the awaiting \<^verbatim>\<open>loadAndPlayVideo\<close> is in that function.
\<close>

definition onFirstFrame :: "handle \<Rightarrow> VideoQuality \<Rightarrow> int \<Rightarrow> hook \<Rightarrow> hook" where
  "onFirstFrame p settingQuality' streamQuality' s =
     registerPlayerCallbacks p settingQuality' streamQuality' (say (FirstFrameLog p) s)"

definition networkFlags :: "TriggerSnapshot \<Rightarrow> bool" where
  "networkFlags r = (isExpired r \<or> isIdleTimeout r \<or> isMultiSession r \<or> isMaintenance r)"

text \<open>
  \<^verbatim>\<open>loadAndPlayVideo\<close>, called by the \<^verbatim>\<open>play\<close> of an invocation that the current render's
  \<^verbatim>\<open>doDestroyAndPlay\<close> started: the closures it registers hold the current
  \<^verbatim>\<open>settingQuality\<close> and \<^verbatim>\<open>streamQuality\<close>.
\<close>

definition loadAndPlayVideo :: "attempt_env \<Rightarrow> handle \<Rightarrow> string \<Rightarrow> hook \<Rightarrow> unit result" where
  "loadAndPlayVideo env p source s =
     (if networkFlags (stateRefs s) then (Inl NetworkConditions, s)
      else
        let s1 = say (Load p source)
                   (addListener p ON_ERROR OnError
                      (addListener p ON_FIRST_VIDEO_RENDERED
                         (OnFirstFrame (settingQuality s) (streamQuality s)) s))
        in case settles env of
             FirstFrame \<Rightarrow> (Inr (), onFirstFrame p (settingQuality s) (streamQuality s) s1)
           | ErrorEvent e \<Rightarrow> (Inl (PlayerError e), s1)
           | LoadOrPlayRejected e \<Rightarrow> (Inl (PlayerError e), s1)
           | TimerExpired \<Rightarrow> (Inl FirstFrameTimeout, s1))"

fun resumeAndSetVolume :: "attempt_env \<Rightarrow> handle option \<Rightarrow> hook \<Rightarrow> unit result" where
  "resumeAndSetVolume env None s = (Inr (), s)"
| "resumeAndSetVolume env (Some p) s =
     (case resume env of
        Some e \<Rightarrow> (Inl (PlayerError e), say (Resume p) s)
      | None \<Rightarrow> (Inr (), say (Resume p) s))"

definition initPlayerInstance :: "attempt_env \<Rightarrow> hook \<Rightarrow> hook" where
  "initPlayerInstance env s =
     say (Construct (created s))
       (s\<lparr>player := Some (created s), created := Suc (created s),
          live := live s @ [created s],
          status := (status s)(created s := statusAfter env)\<rparr>)"

definition play :: "UseStreamConfig \<Rightarrow> attempt_env \<Rightarrow> hook \<Rightarrow> unit result" where
  "play cfg env s =
     (let url = getStreamUrl s;
          s1 = s\<lparr>isCanStream := (url \<noteq> [])\<rparr>;
          (r, s') =
            (if url = [] \<or> \<not> videoEl s1 then (Inl NotInitialized, s1)
             else
               let p = created s1;
                   s2 = initPlayerInstance env s1;
                   (r1, s3) = loadAndPlayVideo env p url s2
               in case r1 of
                    Inl e \<Rightarrow> (Inl e, s3)
                  | Inr _ \<Rightarrow>
                      (case resumeAndSetVolume env (player s3) s3 of
                         (Inl e, s4) \<Rightarrow> (Inl e, s4)
                       | (Inr _, s4) \<Rightarrow> (Inr (), if onPlay cfg then say CallOnPlay s4 else s4)))
      in case r of
           Inl e \<Rightarrow> (Inl e, if onError cfg then say (CallOnError e) s' else s')
         | Inr _ \<Rightarrow> (Inr (), s'))"

subsection \<open>The entry function and its retries\<close>

text \<open>
  One invocation of \<^verbatim>\<open>doDestroyAndPlay(retryCount, maxRetry)\<close>. The function does not await
  its retry: its last statement calls \<^verbatim>\<open>doDestroyAndPlayRef.current(retryCount + 1,
  maxRetry)\<close> and returns. The model returns the state together with the retry count of that
  call, or \<open>None\<close> when the invocation ends without one.

  An invocation is modelled in two steps: from its first statement to the point where it
  returns or starts to wait the retry delay (\<open>untilRetryDelay\<close>), and from the end of that
  delay on (\<open>afterRetryDelay\<close>, then the retry). What the player does while the first step
  waits is in its \<open>attempt_env\<close>. Triggers and player events are operations of their own,
  applied to the state between invocations or during a retry delay. The callbacks
  \<^verbatim>\<open>onPlay\<close>, \<^verbatim>\<open>onStop\<close> and \<^verbatim>\<open>onError\<close> are taken not to throw and to be the same
  functions at every render.

  A retry count is a JavaScript number. The model takes the natural numbers; \<open>jsSucc\<close> is
  \<^verbatim>\<open>retryCount + 1\<close> in double precision, which is exact below \<open>2 ^ 53\<close> and rounds to
  even from there on. \<^verbatim>\<open>maxRetry\<close> is a natural number or \<^verbatim>\<open>Infinity\<close>.
\<close>

definition jsSucc :: "nat \<Rightarrow> nat" where
  "jsSucc n =
     (if n < 2 ^ 53 then n + 1
      else if n < 2 ^ 54 \<and> odd (n div 2) then n + 2
      else n)"

text \<open>Lines 345--355: the flag is raised and a player that is still referenced is torn down.\<close>

definition teardownFirst :: "UseStreamConfig \<Rightarrow> attempt_env \<Rightarrow> hook \<Rightarrow> hook" where
  "teardownFirst cfg env s =
     (let s1 = s\<lparr>isDoDestroyAndPlayRunning := True\<rparr>
      in if player s1 \<noteq> None then sleep Sleep50 (stopVideoWithSnapshot cfg env s1) else s1)"

text \<open>Lines 358--360: the attempt is logged, the loading flag set, \<^verbatim>\<open>play()\<close> awaited.\<close>

definition attempt :: "UseStreamConfig \<Rightarrow> attempt_env \<Rightarrow> nat \<Rightarrow> hook \<Rightarrow> unit result" where
  "attempt cfg env retryCount s = play cfg env ((say (AttemptLog retryCount) s)\<lparr>isLoading := True\<rparr>)"

text \<open>
  Lines 343--372. The result \<open>Some n\<close> says that the invocation now waits the retry delay
  and will then call retry \<open>n\<close>; the running flag is still up.
\<close>

definition untilRetryDelay ::
  "UseStreamConfig \<Rightarrow> attempt_env \<Rightarrow> nat \<Rightarrow> enat \<Rightarrow> hook \<Rightarrow> hook \<times> nat option" where
  "untilRetryDelay cfg env retryCount maxRetry s =
     (if shouldSkipPlay s then (s, None)
      else
        let (r, s4) = attempt cfg env retryCount (teardownFirst cfg env s)
        in case r of
             Inr _ \<Rightarrow>
               (let s5 = setSnapshot [] s4;
                    s6 = (if onPlay cfg then say CallOnPlay s5 else s5)
                in (s6\<lparr>isDoDestroyAndPlayRunning := False, isLoading := False\<rparr>, None))
           | Inl e \<Rightarrow>
               if enat retryCount \<ge> maxRetry then (s4\<lparr>isCanStream := False\<rparr>, None)
               else (s4, Some (jsSucc retryCount)))"

text \<open>Lines 373--375: the delay is over and the flag is lowered; the retry call follows.\<close>

definition afterRetryDelay :: "UseStreamConfig \<Rightarrow> hook \<Rightarrow> hook" where
  "afterRetryDelay cfg s =
     (sleep (SleepRetryDelay (retryDelay cfg)) s)\<lparr>isDoDestroyAndPlayRunning := False\<rparr>"

text \<open>
  The invocation during whose retry delay nothing else happens, up to the call of its
  retry.
\<close>

definition doDestroyAndPlay ::
  "UseStreamConfig \<Rightarrow> attempt_env \<Rightarrow> nat \<Rightarrow> enat \<Rightarrow> hook \<Rightarrow> hook \<times> nat option" where
  "doDestroyAndPlay cfg env retryCount maxRetry s =
     (case untilRetryDelay cfg env retryCount maxRetry s of
        (s', None) \<Rightarrow> (s', None)
      | (s', Some n) \<Rightarrow> (afterRetryDelay cfg s', Some n))"

text \<open>
  \<^verbatim>\<open>doDestroyAndPlayRef.current?.()\<close>, as every entry trigger and every armed listener
  calls it: both parameters take their defaults.
\<close>

definition reevaluate :: "UseStreamConfig \<Rightarrow> attempt_env \<Rightarrow> hook \<Rightarrow> hook \<times> nat option" where
  "reevaluate cfg env s = doDestroyAndPlay cfg env 0 (maxRetries cfg) s"

text \<open>
  The chain of invocations one call starts, each retry with the next outcome of the world.
  The chain is \<open>Finished\<close> when an invocation ends without calling a retry, and
  \<open>Retrying n\<close> when the listed outcomes end while retry \<open>n\<close> is due.
\<close>

datatype chain_end = Finished | Retrying nat

fun retryChain ::
  "UseStreamConfig \<Rightarrow> attempt_env list \<Rightarrow> nat \<Rightarrow> enat \<Rightarrow> hook \<Rightarrow> hook \<times> chain_end" where
  "retryChain cfg [] retryCount maxRetry s = (s, Retrying retryCount)"
| "retryChain cfg (env # envs) retryCount maxRetry s =
     (case doDestroyAndPlay cfg env retryCount maxRetry s of
        (s', None) \<Rightarrow> (s', Finished)
      | (s', Some n) \<Rightarrow> retryChain cfg envs n maxRetry s')"

subsection \<open>Entry triggers\<close>




text \<open>
  The effect of lines 447--462, for the render whose values are in the state. Its
  \<^verbatim>\<open>setStreamQuality\<close> takes effect at the next render only, so the tier it asks for is
  returned and the state left as it is.
\<close>

definition videoQualityEffect :: "hook \<Rightarrow> hook \<times> int option" where
  "videoQualityEffect s =
     (if \<not> videoEl s then (s, None)
      else
        case settingQuality s of
          AUTO \<Rightarrow>
            ((case player s of
                Some p \<Rightarrow> regQualityModeCallback p (settingQuality s) (streamQuality s) s
              | None \<Rightarrow> s),
             None)
        | Tier k \<Rightarrow> if k = streamQuality s then (s, None) else (s, Some k))"

text \<open>
  The user selects a quality. The render that follows runs the effect of lines 425--427
  and the effect above; if that asks for another tier, the next render has the tier, runs
  the effect again (which now returns at line 458) and then the effect of lines 465--467.
\<close>

definition selectQuality ::
  "UseStreamConfig \<Rightarrow> attempt_env \<Rightarrow> VideoQuality \<Rightarrow> hook \<Rightarrow> hook \<times> nat option" where
  "selectQuality cfg env v s =
     (case videoQualityEffect (syncStateRefs (s\<lparr>settingQuality := v\<rparr>)) of
        (s1, None) \<Rightarrow> (s1, None)
      | (s1, Some k) \<Rightarrow> reevaluate cfg env (s1\<lparr>streamQuality := k\<rparr>))"

text \<open>
  The render that sees a tier other than the previous render's: the effect of lines
  425--427, the effect of lines 447--462 and then the effect of lines 465--467. A tier the first effect asks for is
  returned with the result; the render it causes is not part of this function.
\<close>

definition tierChanged ::
  "UseStreamConfig \<Rightarrow> attempt_env \<Rightarrow> hook \<Rightarrow> (hook \<times> nat option) \<times> int option" where
  "tierChanged cfg env s =
     (let (s1, asked) = videoQualityEffect (syncStateRefs s) in (reevaluate cfg env s1, asked))"





subsection \<open>Player events\<close>

text \<open>What a player emits, with the argument its listeners get.\<close>

datatype player_event =
  FirstVideoRendered | Stopped | Ended | Failed string | QualityChanged QualityEvent

fun eventType :: "player_event \<Rightarrow> PlayerEventType" where
  "eventType FirstVideoRendered = ON_FIRST_VIDEO_RENDERED"
| "eventType Stopped = ON_STOPPED"
| "eventType Ended = ON_ENDED"
| "eventType (Failed e) = ON_ERROR"
| "eventType (QualityChanged ev) = ON_QUALITY_CHANGE"

definition setStreamQuality :: "int \<Rightarrow> hook \<Rightarrow> hook" where
  "setStreamQuality v s = s\<lparr>streamQuality := v\<rparr>"

text \<open>
  The listener of \<^verbatim>\<open>regQualityModeCallback\<close>. Its first two arguments are the
  \<^verbatim>\<open>settingQuality\<close> and \<^verbatim>\<open>streamQuality\<close> the closure holds; \<^verbatim>\<open>isPlaying()\<close> reads
  \<^verbatim>\<open>player.current\<close> when the event arrives.
\<close>

definition qualityModeCallback :: "VideoQuality \<Rightarrow> int \<Rightarrow> QualityEvent \<Rightarrow> hook \<Rightarrow> hook" where
  "qualityModeCallback settingQuality' streamQuality' ev s =
     (if settingQuality' \<noteq> AUTO \<or> \<not> isPlaying s then s
      else
        let newQuality = (case to ev of Some t \<Rightarrow> t | None \<Rightarrow> streamQuality')
        in setStreamQuality newQuality s)"

text \<open>
  What a registered listener does when its event arrives, and whether it calls
  \<^verbatim>\<open>doDestroyAndPlayRef.current?.()\<close>. Events are delivered between the steps of the
  model, where the race of every attempt has settled: the first-frame and error listeners
  of an attempt then resolve or reject to no effect, which leaves the registration in the
  first and nothing in the second. A quality listener is registered for quality-change
  events only.
\<close>

fun listenerBody :: "string \<Rightarrow> handle \<Rightarrow> player_event \<Rightarrow> listener \<Rightarrow> hook \<Rightarrow> hook \<times> bool" where
  "listenerBody fr p ev (OnFirstFrame sq q) s = (onFirstFrame p sq q s, False)"
| "listenerBody fr p ev OnError s = (s, False)"
| "listenerBody fr p ev Restart s = (freezeWithSnapshot fr s, True)"
| "listenerBody fr p (QualityChanged qe) (QualityMode sq q) s = (qualityModeCallback sq q qe s, False)"
| "listenerBody fr p ev (QualityMode sq q) s = (s, False)"

fun runListeners ::
  "string \<Rightarrow> handle \<Rightarrow> player_event \<Rightarrow> listener list \<Rightarrow> hook \<Rightarrow> hook \<times> bool" where
  "runListeners fr p ev [] s = (s, False)"
| "runListeners fr p ev (l # ls) s =
     (let (s1, c1) = listenerBody fr p ev l s;
          (s2, c2) = runListeners fr p ev ls s1
      in (s2, c1 \<or> c2))"

text \<open>The listeners registered on a handle for an event type, in the order of registration.\<close>

definition listenersOf :: "handle \<Rightarrow> PlayerEventType \<Rightarrow> hook \<Rightarrow> listener list" where
  "listenersOf p ty s =
     map (\<lambda>(q, e, l). l) (filter (\<lambda>(q, e, l). q = p \<and> e = ty) (listeners s))"

definition handlers :: "string \<Rightarrow> handle \<Rightarrow> player_event \<Rightarrow> hook \<Rightarrow> hook \<times> bool" where
  "handlers fr p ev s = runListeners fr p ev (listenersOf p (eventType ev) s) s"

text \<open>
  A player emits an event. Its listeners run one after the other. A restart listener
  calls \<^verbatim>\<open>doDestroyAndPlayRef.current?.()\<close> without awaiting it, and an invocation that
  starts raises the running flag at once, so that the same call by a later listener of the
  same event is skipped: the model runs the listeners and then that one invocation.
  Otherwise, if a quality listener has changed the tier, the render that sees it follows.
\<close>

definition emit ::
  "UseStreamConfig \<Rightarrow> attempt_env \<Rightarrow> handle \<Rightarrow> player_event \<Rightarrow> hook
     \<Rightarrow> (hook \<times> nat option) \<times> int option" where
  "emit cfg env p ev s =
     (let (s1, called) = handlers (frame env) p ev s
      in if called then (reevaluate cfg env s1, None)
         else if streamQuality s1 \<noteq> streamQuality s then tierChanged cfg env s1
         else ((s1, None), None))"

text \<open>The actions an operation added to the log of the state it started from.\<close>

definition trace :: "hook \<Rightarrow> hook \<Rightarrow> action list" where
  "trace s s' = drop (length (log s)) (log s')"

subsection \<open>Reading a trace\<close>



text \<open>The retry counts of the attempts a trace logs, in order.\<close>

fun attempts :: "action list \<Rightarrow> nat list" where
  "attempts [] = []"
| "attempts (AttemptLog n # t) = n # attempts t"
| "attempts (a # t) = attempts t"

subsection \<open>A concrete hook\<close>

text \<open>
  The scenario of the specification: stream URLs \<^verbatim>\<open>{lo: "A", hd: "B"}\<close>, manual quality
  \<^verbatim>\<open>hd\<close>, at most two retries, a retry delay of 10 ms, all three callbacks given. The hook
  is mounted, initialised, visible and healthy, and has made no attempt yet.
\<close>

definition healthy :: TriggerSnapshot where
  "healthy =
     \<lparr>isVisible = True, isIdleTimeout = False, isMultiSession = False, isExpired = False,
      isMaintenance = False, snapshot = []\<rparr>"

definition settings :: UseStreamConfig where
  "settings = \<lparr>retryDelay = Some 10, maxRetries = 2, onPlay = True, onStop = True, onError = True\<rparr>"

definition mounted :: hook where
  "mounted =
     \<lparr>render = healthy, stateRefs = healthy, isLoading = True, isInit = True, videoEl = True,
      settingQuality = Tier 3, streamQuality = 3,
      streams = Some [(''lo'', ''A''), (''hd'', ''B'')],
      player = None, isDoDestroyAndPlayRunning = False, isCanStream = True,
      status = (\<lambda>_. STOPPED), live = [], created = 0, listeners = [], log = []\<rparr>"

text \<open>An attempt that renders its first frame, one that times out while loading, one that fails.\<close>

definition rendersFrame :: attempt_env where
  "rendersFrame =
     \<lparr>frame = ''frame'', teardown = TeardownOk, settles = FirstFrame, resume = None,
      statusAfter = PLAYING\<rparr>"

definition timesOut :: attempt_env where
  "timesOut = rendersFrame\<lparr>settles := TimerExpired, statusAfter := LOADING\<rparr>"

definition loadFails :: attempt_env where
  "loadFails = rendersFrame\<lparr>settles := LoadOrPlayRejected ''load'', statusAfter := STOPPED\<rparr>"

text \<open>The hook after its first attempt succeeded: one player, playing.\<close>

definition steady :: hook where
  "steady = fst (reevaluate settings rendersFrame mounted)"

text \<open>The same hook while the maintenance flag, and no other, is set.\<close>

definition underMaintenance :: hook where
  "underMaintenance =
     mounted\<lparr>render := healthy\<lparr>isMaintenance := True\<rparr>,
             stateRefs := healthy\<lparr>isMaintenance := True\<rparr>\<rparr>"

text \<open>
  The hook after a first attempt that timed out while the player was still loading and a
  retry that rendered its first frame.
\<close>

definition afterTimeout :: hook where
  "afterTimeout = fst (retryChain settings [timesOut, rendersFrame] 0 (maxRetries settings) mounted)"

text \<open>The hook after three failed loads, with at most two retries allowed.\<close>

definition halted :: hook where
  "halted = fst (retryChain settings [loadFails, loadFails, loadFails] 0 (maxRetries settings) mounted)"




text \<open>
  The hook \<open>afterTimeout\<close> once React has rendered and handle 0, which was still loading
  when the retry replaced it, has at last rendered its first frame.
\<close>

definition afterLateFrame :: hook where
  "afterLateFrame =
     fst (fst (emit settings rendersFrame 0 FirstVideoRendered (syncStateRefs afterTimeout)))"

text \<open>
  A hook in automatic quality mode with a URL for every tier, mounted (\<^verbatim>\<open>streamQuality\<close>
  starts at 1 in that mode) and after its first attempt succeeded; then the same hook after
  the user has selected tier 1, the active one, by hand.
\<close>

definition autoMounted :: hook where
  "autoMounted =
     mounted\<lparr>settingQuality := AUTO, streamQuality := 1,
             streams := Some [(''lo'', ''A''), (''me'', ''M''), (''hi'', ''H''), (''hd'', ''B'')]\<rparr>"

definition autoSteady :: hook where
  "autoSteady = fst (reevaluate settings rendersFrame autoMounted)"

definition manualAfterAuto :: hook where
  "manualAfterAuto = fst (selectQuality settings rendersFrame (Tier 1) autoSteady)"

section \<open>What an operation adds to the log\<close>

lemma log_say [simp]: "log (say a s) = log s @ [a]"
  by (simp add: say_def)

lemma log_sleep [simp]: "log (sleep a s) = log s @ [a]"
  by (simp add: sleep_def syncStateRefs_def)

lemma log_addListener [simp]: "log (addListener p ev l s) = log s"
  by (simp add: addListener_def)










lemma log_initPlayerInstance [simp]:
  "log (initPlayerInstance env s) = log s @ [Construct (created s)]"
  by (simp add: initPlayerInstance_def)



lemma log_setSnapshot [simp]: "log (setSnapshot v s) = log s @ [SetSnapshot v]"
  by (simp add: setSnapshot_def)





lemma log_afterRetryDelay [simp]:
  "log (afterRetryDelay cfg s) = log s @ [SleepRetryDelay (retryDelay cfg)]"
  by (simp add: afterRetryDelay_def)










lemma attempts_append [simp]: "attempts (X @ Y) = attempts X @ attempts Y"
  by (induction X rule: attempts.induct) auto








section \<open>What an operation leaves alone\<close>

text \<open>The running flag is raised and lowered by \<^verbatim>\<open>doDestroyAndPlay\<close> only.\<close>

lemma flag_freezeWithSnapshot [simp]:
  "isDoDestroyAndPlayRunning (freezeWithSnapshot f s) = isDoDestroyAndPlayRunning s"
  by (simp add: freezeWithSnapshot_def setSnapshot_def say_def Let_def)

lemma flag_stopAndDestroy [simp]:
  "isDoDestroyAndPlayRunning (snd (stopAndDestroy env p s)) = isDoDestroyAndPlayRunning s"
  by (cases p) (simp_all add: say_def split: teardown_result.splits)

lemma log_syncStateRefs [simp]: "log (syncStateRefs s) = log s"
  by (simp add: syncStateRefs_def)

lemma flag_syncStateRefs [simp]:
  "isDoDestroyAndPlayRunning (syncStateRefs s) = isDoDestroyAndPlayRunning s"
  by (simp add: syncStateRefs_def)

lemma flag_sleep [simp]: "isDoDestroyAndPlayRunning (sleep a s) = isDoDestroyAndPlayRunning s"
  by (simp add: sleep_def syncStateRefs_def say_def)

lemma flag_stopVideoWithSnapshot [simp]:
  "isDoDestroyAndPlayRunning (stopVideoWithSnapshot cfg env s) = isDoDestroyAndPlayRunning s"
  by (simp add: stopVideoWithSnapshot_def Let_def split_beta say_def
      del: stopAndDestroy.simps split: sum.splits)

lemma flag_registerPlayerCallbacks [simp]:
  "isDoDestroyAndPlayRunning (registerPlayerCallbacks p sq q s) = isDoDestroyAndPlayRunning s"
  by (simp add: registerPlayerCallbacks_def regQualityModeCallback_def addListener_def say_def Let_def)

lemma flag_onFirstFrame [simp]:
  "isDoDestroyAndPlayRunning (onFirstFrame p sq q s) = isDoDestroyAndPlayRunning s"
  by (simp add: onFirstFrame_def say_def)

lemma flag_loadAndPlayVideo [simp]:
  "isDoDestroyAndPlayRunning (snd (loadAndPlayVideo env p u s)) = isDoDestroyAndPlayRunning s"
  by (simp add: loadAndPlayVideo_def addListener_def say_def Let_def split: race_event.splits)

lemma flag_resumeAndSetVolume [simp]:
  "isDoDestroyAndPlayRunning (snd (resumeAndSetVolume env p s)) = isDoDestroyAndPlayRunning s"
  by (cases p) (simp_all add: say_def split: option.splits)

lemma flag_initPlayerInstance [simp]:
  "isDoDestroyAndPlayRunning (initPlayerInstance env s) = isDoDestroyAndPlayRunning s"
  by (simp add: initPlayerInstance_def say_def)

lemma flag_play [simp]:
  "isDoDestroyAndPlayRunning (snd (play cfg env s)) = isDoDestroyAndPlayRunning s"
  by (simp add: play_def Let_def split_beta say_def
      del: resumeAndSetVolume.simps split: sum.splits)

lemma flag_attempt [simp]:
  "isDoDestroyAndPlayRunning (snd (attempt cfg env rc s)) = isDoDestroyAndPlayRunning s"
  by (simp add: attempt_def say_def)

lemma flag_teardownFirst [simp]: "isDoDestroyAndPlayRunning (teardownFirst cfg env s)"
  by (simp add: teardownFirst_def Let_def)


text \<open>
  The held image is written by \<^verbatim>\<open>setSnapshot\<close> only: \<^verbatim>\<open>play()\<close> leaves it alone, and a
  teardown never replaces an image by none.
\<close>

lemma render_stopAndDestroy [simp]: "render (snd (stopAndDestroy env p s)) = render s"
  by (cases p) (simp_all add: say_def split: teardown_result.splits)

lemma render_registerPlayerCallbacks [simp]: "render (registerPlayerCallbacks p sq q s) = render s"
  by (simp add: registerPlayerCallbacks_def regQualityModeCallback_def addListener_def say_def Let_def)

lemma render_onFirstFrame [simp]: "render (onFirstFrame p sq q s) = render s"
  by (simp add: onFirstFrame_def say_def)

lemma render_loadAndPlayVideo [simp]: "render (snd (loadAndPlayVideo env p u s)) = render s"
  by (simp add: loadAndPlayVideo_def addListener_def say_def Let_def split: race_event.splits)

lemma render_resumeAndSetVolume [simp]: "render (snd (resumeAndSetVolume env p s)) = render s"
  by (cases p) (simp_all add: say_def split: option.splits)

lemma render_initPlayerInstance [simp]: "render (initPlayerInstance env s) = render s"
  by (simp add: initPlayerInstance_def say_def)

lemma render_play [simp]: "render (snd (play cfg env s)) = render s"
  by (simp add: play_def Let_def split_beta say_def
      del: resumeAndSetVolume.simps split: sum.splits)

lemma render_attempt [simp]: "render (snd (attempt cfg env rc s)) = render s"
  by (simp add: attempt_def say_def)


lemma render_sleep [simp]: "render (sleep a s) = render s"
  by (simp add: sleep_def syncStateRefs_def say_def)



section \<open>Triggers and player events\<close>



lemma flag_videoQualityEffect [simp]:
  "isDoDestroyAndPlayRunning (fst (videoQualityEffect s)) = isDoDestroyAndPlayRunning s"
  by (simp add: videoQualityEffect_def regQualityModeCallback_def addListener_def say_def
      split: VideoQuality.splits option.splits)



















section \<open>The claims\<close>

subsection \<open>C5: first frame, then \<open>onPlay\<close>; one clear per success\<close>




subsection \<open>C6: capturing twice\<close>

text \<open>
  The part of C6 the code keeps: \<^verbatim>\<open>freezeWithSnapshot\<close> returns at once when
  \<^verbatim>\<open>stateRefs.current.snapshot\<close>, the mirror of the held image, is not empty.
\<close>

lemma capture_skipped_when_mirrored:
  "snapshot (stateRefs s) \<noteq> [] \<Longrightarrow> freezeWithSnapshot f s = s"
  by (simp add: freezeWithSnapshot_def)

text \<open>
  C6 says that a second capture leaves a held image unchanged. The guard of
  \<^verbatim>\<open>freezeWithSnapshot\<close> is there for that (``to avoid do the capture when video is loading
  and have a snapshot already''), but it reads the mirror, which only the effect of lines
  425--427 brings up to date after a render. On the playing hook a capture holds the image
  \<^verbatim>\<open>first\<close> and leaves the mirror empty, so that a second capture right after it replaces
  the held image by \<^verbatim>\<open>second\<close>. Every armed listener does this: when the player emits
  \<^verbatim>\<open>stopped\<close> it calls \<^verbatim>\<open>freezeWithSnapshot()\<close> and then \<^verbatim>\<open>doDestroyAndPlay\<close>, whose
  \<^verbatim>\<open>stopVideoWithSnapshot\<close> calls it again before any render: two captures are stored.
\<close>

theorem second_capture_overwrites:
  "snapshot (render steady) = [] \<and> snapshot (stateRefs steady) = []
   \<and> snapshot (render (freezeWithSnapshot ''first'' steady)) = ''first''
   \<and> snapshot (stateRefs (freezeWithSnapshot ''first'' steady)) = []
   \<and> snapshot (render (freezeWithSnapshot ''second'' (freezeWithSnapshot ''first'' steady)))
       = ''second''
   \<and> trace steady (fst (fst (emit settings rendersFrame 0 Stopped steady))) =
       [SetSnapshot ''frame'', SetSnapshot ''frame'', Sleep100, Stop 0, Destroy 0, CallOnStop,
        Sleep50, AttemptLog 0, Construct 1, Load 1 ''B'', FirstFrameLog 1, Resume 1, CallOnPlay,
        SetSnapshot [], CallOnPlay]"
  by code_simp

subsection \<open>C7: the retry count\<close>




subsection \<open>C8: timeout and late events\<close>

text \<open>
  C8, as amended. When the timer settles the race of a healthy hook, the attempt rejects
  with the timeout error and leaves its first-frame listener and its error listener on the
  handle. As long as these are the handle's only listeners for their events: an error event
  of that handle changes nothing and starts nothing; a first-frame event of that handle
  starts nothing and changes nothing of the hook but the listeners and the log, because it
  still runs \<^verbatim>\<open>registerPlayerCallbacks\<close>. That registers the three restart listeners on
  the attempt's handle and, if automatic quality mode is selected by then, a quality
  listener that holds the mode and the tier of the render that started the attempt, with
  the player configured for that tier.
\<close>

theorem timeout_rejects_late_events:
  "(\<not> isIdleTimeout (stateRefs s) \<and> \<not> isExpired (stateRefs s)
      \<and> \<not> isMultiSession (stateRefs s) \<and> \<not> isMaintenance (stateRefs s)
      \<and> settles env = TimerExpired
    \<longrightarrow> fst (loadAndPlayVideo env p source s) = Inl FirstFrameTimeout
        \<and> listenersOf p ON_FIRST_VIDEO_RENDERED (snd (loadAndPlayVideo env p source s))
            = listenersOf p ON_FIRST_VIDEO_RENDERED s
                @ [OnFirstFrame (settingQuality s) (streamQuality s)]
        \<and> listenersOf p ON_ERROR (snd (loadAndPlayVideo env p source s))
            = listenersOf p ON_ERROR s @ [OnError])
   \<and> (listenersOf p ON_ERROR t = [OnError] \<longrightarrow>
        emit cfg env' p (Failed e) t = ((t, None), None))
   \<and> (listenersOf p ON_FIRST_VIDEO_RENDERED t = [OnFirstFrame sq q] \<longrightarrow>
        emit cfg env' p FirstVideoRendered t =
          ((t\<lparr>listeners := listeners t
                 @ [(p, ON_STOPPED, Restart), (p, ON_ENDED, Restart), (p, ON_ERROR, Restart)]
                 @ (if settingQuality t = AUTO
                    then [(p, ON_QUALITY_CHANGE, QualityMode sq q)] else []),
               log := log t @ FirstFrameLog p
                 # (if settingQuality t = AUTO
                    then [ConfigQualityMode p q (length QUALITIES)] else [])\<rparr>,
            None), None))"
proof -
  have p1: "fst (loadAndPlayVideo env p source s) = Inl FirstFrameTimeout
        \<and> listenersOf p ON_FIRST_VIDEO_RENDERED (snd (loadAndPlayVideo env p source s))
            = listenersOf p ON_FIRST_VIDEO_RENDERED s
                @ [OnFirstFrame (settingQuality s) (streamQuality s)]
        \<and> listenersOf p ON_ERROR (snd (loadAndPlayVideo env p source s))
            = listenersOf p ON_ERROR s @ [OnError]"
    if "\<not> isIdleTimeout (stateRefs s) \<and> \<not> isExpired (stateRefs s)
      \<and> \<not> isMultiSession (stateRefs s) \<and> \<not> isMaintenance (stateRefs s)
      \<and> settles env = TimerExpired"
    using that
    by (simp add: loadAndPlayVideo_def networkFlags_def Let_def listenersOf_def addListener_def
        say_def)
  have p2: "emit cfg env' p (Failed e) t = ((t, None), None)"
    if "listenersOf p ON_ERROR t = [OnError]"
    using that by (simp add: emit_def handlers_def)
  have p3: "emit cfg env' p FirstVideoRendered t =
          ((t\<lparr>listeners := listeners t
                 @ [(p, ON_STOPPED, Restart), (p, ON_ENDED, Restart), (p, ON_ERROR, Restart)]
                 @ (if settingQuality t = AUTO
                    then [(p, ON_QUALITY_CHANGE, QualityMode sq q)] else []),
               log := log t @ FirstFrameLog p
                 # (if settingQuality t = AUTO
                    then [ConfigQualityMode p q (length QUALITIES)] else [])\<rparr>,
            None), None)"
    if "listenersOf p ON_FIRST_VIDEO_RENDERED t = [OnFirstFrame sq q]"
    using that
    by (simp add: emit_def handlers_def onFirstFrame_def registerPlayerCallbacks_def
        regQualityModeCallback_def addListener_def say_def Let_def)
  from p1 p2 p3 show ?thesis by blast
qed

text \<open>
  The first attempt of the mounted hook times out. After the retry has succeeded with
  handle 1, an error event of handle 0 changes nothing, and a first-frame event of handle 0
  registers three restart listeners on it. If the user has selected automatic quality
  before that first frame, the listener it registers holds the manual tier 3 of the render
  that started the attempt.
\<close>

theorem timeout_rejects_late_events_witness:
  "settles timesOut = TimerExpired
   \<and> fst (loadAndPlayVideo timesOut 0 ''B'' mounted) = Inl FirstFrameTimeout
   \<and> listenersOf 0 ON_FIRST_VIDEO_RENDERED (snd (loadAndPlayVideo timesOut 0 ''B'' mounted))
       = [OnFirstFrame (Tier 3) 3]
   \<and> listenersOf 0 ON_ERROR (snd (loadAndPlayVideo timesOut 0 ''B'' mounted)) = [OnError]
   \<and> listenersOf 0 ON_ERROR (syncStateRefs afterTimeout) = [OnError]
   \<and> emit settings rendersFrame 0 (Failed ''late'') (syncStateRefs afterTimeout)
       = ((syncStateRefs afterTimeout, None), None)
   \<and> listenersOf 0 ON_FIRST_VIDEO_RENDERED (syncStateRefs afterTimeout) = [OnFirstFrame (Tier 3) 3]
   \<and> listeners (fst (fst (emit settings rendersFrame 0 FirstVideoRendered
        (syncStateRefs afterTimeout))))
       = listeners (syncStateRefs afterTimeout)
           @ [(0, ON_STOPPED, Restart), (0, ON_ENDED, Restart), (0, ON_ERROR, Restart)]
   \<and> settingQuality (fst (selectQuality settings rendersFrame AUTO (syncStateRefs afterTimeout)))
       = AUTO
   \<and> listenersOf 0 ON_QUALITY_CHANGE
        (fst (fst (emit settings rendersFrame 0 FirstVideoRendered
           (fst (selectQuality settings rendersFrame AUTO (syncStateRefs afterTimeout))))))
       = [QualityMode (Tier 3) 3]"
proof -
  let ?t = "syncStateRefs afterTimeout"
  let ?u = "fst (selectQuality settings rendersFrame AUTO ?t)"
  have healthy: "\<not> isIdleTimeout (stateRefs mounted) \<and> \<not> isExpired (stateRefs mounted)
      \<and> \<not> isMultiSession (stateRefs mounted) \<and> \<not> isMaintenance (stateRefs mounted)"
    by (simp add: mounted_def healthy_def)
  have timer: "settles timesOut = TimerExpired"
    by (simp add: timesOut_def)
  have fresh: "listenersOf 0 ON_FIRST_VIDEO_RENDERED mounted = []" "listenersOf 0 ON_ERROR mounted = []"
    "settingQuality mounted = Tier 3" "streamQuality mounted = 3"
    by (simp_all add: mounted_def listenersOf_def)
  from timeout_rejects_late_events [where s = mounted and env = timesOut and p = 0
      and source = "''B''", THEN conjunct1] healthy timer
  have a: "fst (loadAndPlayVideo timesOut 0 ''B'' mounted) = Inl FirstFrameTimeout
        \<and> listenersOf 0 ON_FIRST_VIDEO_RENDERED (snd (loadAndPlayVideo timesOut 0 ''B'' mounted))
            = listenersOf 0 ON_FIRST_VIDEO_RENDERED mounted
                @ [OnFirstFrame (settingQuality mounted) (streamQuality mounted)]
        \<and> listenersOf 0 ON_ERROR (snd (loadAndPlayVideo timesOut 0 ''B'' mounted))
            = listenersOf 0 ON_ERROR mounted @ [OnError]"
    by blast
  have a': "fst (loadAndPlayVideo timesOut 0 ''B'' mounted) = Inl FirstFrameTimeout
        \<and> listenersOf 0 ON_FIRST_VIDEO_RENDERED (snd (loadAndPlayVideo timesOut 0 ''B'' mounted))
            = [OnFirstFrame (Tier 3) 3]
        \<and> listenersOf 0 ON_ERROR (snd (loadAndPlayVideo timesOut 0 ''B'' mounted)) = [OnError]"
    using a by (simp only: fresh append_Nil) 
  have err: "listenersOf 0 ON_ERROR ?t = [OnError]"
    by code_simp
  from timeout_rejects_late_events [where t = ?t and p = 0 and e = "''late''" and cfg = settings
      and env' = rendersFrame, THEN conjunct2, THEN conjunct1] err
  have b: "emit settings rendersFrame 0 (Failed ''late'') ?t = ((?t, None), None)"
    by blast
  have ff: "listenersOf 0 ON_FIRST_VIDEO_RENDERED ?t = [OnFirstFrame (Tier 3) 3]"
    by code_simp
  have manual: "settingQuality ?t \<noteq> AUTO"
    by code_simp
  from timeout_rejects_late_events [where t = ?t and p = 0 and sq = "Tier 3" and q = 3
      and cfg = settings and env' = rendersFrame, THEN conjunct2, THEN conjunct2] ff
  have "emit settings rendersFrame 0 FirstVideoRendered ?t =
          ((?t\<lparr>listeners := listeners ?t
                 @ [(0, ON_STOPPED, Restart), (0, ON_ENDED, Restart), (0, ON_ERROR, Restart)]
                 @ (if settingQuality ?t = AUTO
                    then [(0, ON_QUALITY_CHANGE, QualityMode (Tier 3) 3)] else []),
               log := log ?t @ FirstFrameLog 0
                 # (if settingQuality ?t = AUTO
                    then [ConfigQualityMode 0 3 (length QUALITIES)] else [])\<rparr>,
            None), None)"
    by blast
  then have c: "listeners (fst (fst (emit settings rendersFrame 0 FirstVideoRendered ?t)))
       = listeners ?t @ [(0, ON_STOPPED, Restart), (0, ON_ENDED, Restart), (0, ON_ERROR, Restart)]"
    using manual by simp
  have auto: "settingQuality ?u = AUTO"
    by code_simp
  have ff': "listenersOf 0 ON_FIRST_VIDEO_RENDERED ?u = [OnFirstFrame (Tier 3) 3]"
    by code_simp
  have none: "listenersOf 0 ON_QUALITY_CHANGE ?u = []"
    by code_simp
  from timeout_rejects_late_events [where t = ?u and p = 0 and sq = "Tier 3" and q = 3
      and cfg = settings and env' = rendersFrame, THEN conjunct2, THEN conjunct2] ff'
  have "emit settings rendersFrame 0 FirstVideoRendered ?u =
          ((?u\<lparr>listeners := listeners ?u
                 @ [(0, ON_STOPPED, Restart), (0, ON_ENDED, Restart), (0, ON_ERROR, Restart)]
                 @ (if settingQuality ?u = AUTO
                    then [(0, ON_QUALITY_CHANGE, QualityMode (Tier 3) 3)] else []),
               log := log ?u @ FirstFrameLog 0
                 # (if settingQuality ?u = AUTO
                    then [ConfigQualityMode 0 3 (length QUALITIES)] else [])\<rparr>,
            None), None)"
    by blast
  then have "listenersOf 0 ON_QUALITY_CHANGE
        (fst (fst (emit settings rendersFrame 0 FirstVideoRendered ?u)))
      = listenersOf 0 ON_QUALITY_CHANGE ?u @ [QualityMode (Tier 3) 3]"
    using auto by (simp add: listenersOf_def)
  then have d: "listenersOf 0 ON_QUALITY_CHANGE
        (fst (fst (emit settings rendersFrame 0 FirstVideoRendered ?u))) = [QualityMode (Tier 3) 3]"
    by (simp only: none append_Nil)
  from timer a' err b ff c auto d show ?thesis
    by blast
qed

text \<open>
  C8 as stated fails for a late first-frame event. Attempt 0 times out while handle 0 is
  still loading; the retry leaves handle 0 alone (it is not playing) and succeeds with
  handle 1, so that no restart listener is registered on handle 0. Then handle 0 renders
  its first frame after all: the listener of the timed-out attempt arms three restart
  listeners on handle 0. When handle 0 later emits \<^verbatim>\<open>stopped\<close>, such a listener tears down
  handle 1, the player of the later attempt, and starts an attempt of its own.
\<close>

theorem late_first_frame_counterexample:
  "listeners afterTimeout =
     [(0, ON_FIRST_VIDEO_RENDERED, OnFirstFrame (Tier 3) 3), (0, ON_ERROR, OnError),
      (1, ON_FIRST_VIDEO_RENDERED, OnFirstFrame (Tier 3) 3), (1, ON_ERROR, OnError),
      (1, ON_STOPPED, Restart), (1, ON_ENDED, Restart), (1, ON_ERROR, Restart)]
   \<and> listeners afterLateFrame =
       listeners afterTimeout
         @ [(0, ON_STOPPED, Restart), (0, ON_ENDED, Restart), (0, ON_ERROR, Restart)]
   \<and> player afterLateFrame = Some 1
   \<and> live afterLateFrame = [0, 1]
   \<and> trace afterLateFrame (fst (fst (emit settings rendersFrame 0 Stopped afterLateFrame))) =
       [SetSnapshot ''frame'', SetSnapshot ''frame'', Sleep100, Stop 1, Destroy 1, CallOnStop,
        Sleep50, AttemptLog 0, Construct 2, Load 2 ''B'', FirstFrameLog 2, Resume 2, CallOnPlay,
        SetSnapshot [], CallOnPlay]"
  by code_simp

subsection \<open>C9: quality-change events\<close>

text \<open>
  The part of C9 the code keeps, in terms of the mode the listener holds: a listener whose
  mode is not automatic, or that runs while the current player is not playing, changes
  nothing; otherwise a target tier replaces the active tier.
\<close>

lemma quality_listener_guard:
  "(sq \<noteq> AUTO \<or> \<not> isPlaying s \<longrightarrow> qualityModeCallback sq q ev s = s)
   \<and> (sq = AUTO \<and> isPlaying s \<and> to ev = Some t \<longrightarrow>
        qualityModeCallback sq q ev s = s\<lparr>streamQuality := t\<rparr>)"
  by (simp add: qualityModeCallback_def setStreamQuality_def)

text \<open>
  C9 says that a quality-change event updates the active tier only while automatic mode is
  selected. The listener tests for that (\<^verbatim>\<open>if (!isAuto || !isPlaying()) return\<close>), but
  \<^verbatim>\<open>isAuto\<close> is the mode of the render that registered the listener, and a listener is
  never removed. Here the hook plays in automatic mode at tier 1, and the user then selects
  tier 1 by hand: the effect of lines 447--462 finds the selected tier active and returns, so
  the player and its listener stay. When that player next reports a change to tier 2, the
  listener still holds \<^verbatim>\<open>'AUTO'\<close>: the active tier becomes 2 although tier 1 is selected, the
  player is torn down and the tier-2 URL is loaded, and the effect asks for tier 1 again.
\<close>

theorem stale_quality_listener_changes_tier:
  "settingQuality autoSteady = AUTO \<and> streamQuality autoSteady = 1
   \<and> settingQuality manualAfterAuto = Tier 1 \<and> streamQuality manualAfterAuto = 1
   \<and> trace autoSteady manualAfterAuto = []
   \<and> player manualAfterAuto = Some 0 \<and> isPlaying manualAfterAuto
   \<and> listenersOf 0 ON_QUALITY_CHANGE manualAfterAuto = [QualityMode AUTO 1]
   \<and> settingQuality (fst (fst (emit settings rendersFrame 0
        (QualityChanged \<lparr>currentQuality = 1, to = Some 2\<rparr>) manualAfterAuto))) = Tier 1
   \<and> streamQuality (fst (fst (emit settings rendersFrame 0
        (QualityChanged \<lparr>currentQuality = 1, to = Some 2\<rparr>) manualAfterAuto))) = 2
   \<and> trace manualAfterAuto (fst (fst (emit settings rendersFrame 0
        (QualityChanged \<lparr>currentQuality = 1, to = Some 2\<rparr>) manualAfterAuto))) =
       [SetSnapshot ''frame'', Sleep100, Stop 0, Destroy 0, CallOnStop, Sleep50,
        AttemptLog 0, Construct 1, Load 1 ''H'', FirstFrameLog 1, Resume 1, CallOnPlay,
        SetSnapshot [], CallOnPlay]
   \<and> snd (emit settings rendersFrame 0
        (QualityChanged \<lparr>currentQuality = 1, to = Some 2\<rparr>) manualAfterAuto) = Some 1"
  by code_simp

subsection \<open>C1: one live player handle\<close>

text \<open>
  C1 says that a second handle is never constructed unless the prior one was stopped and
  destroyed. The comment above \<^verbatim>\<open>doDestroyAndPlay\<close> promises the same (``it will first
  destroy any existing player instance''), but \<^verbatim>\<open>stopVideoWithSnapshot\<close> returns early for
  a player that is not playing. Here the first attempt times out while handle 0 is still
  loading; the retry constructs handle 1 and neither stops nor destroys handle 0: both are
  live afterwards.
\<close>

theorem stale_handle_left_live:
  "live afterTimeout = [0, 1]
   \<and> player afterTimeout = Some 1
   \<and> log afterTimeout =
       [AttemptLog 0, Construct 0, Load 0 ''B'', CallOnError FirstFrameTimeout,
        SleepRetryDelay (Some 10), SetSnapshot ''frame'', Sleep50,
        AttemptLog 1, Construct 1, Load 1 ''B'', FirstFrameLog 1, Resume 1, CallOnPlay,
        SetSnapshot [], CallOnPlay]"
  by code_simp

subsection \<open>C2: no attempt while hidden or unhealthy\<close>

text \<open>
  The part of C2 the code keeps: hidden, idle, expired or multi-session, the re-evaluation
  returns the state it was given.
\<close>

lemma skipped_when_hidden_or_flagged:
  assumes "\<not> isVisible (stateRefs s) \<or> isIdleTimeout (stateRefs s) \<or> isExpired (stateRefs s)
           \<or> isMultiSession (stateRefs s)"
  shows "doDestroyAndPlay cfg env rc mx s = (s, None)"
  using assms by (auto simp: doDestroyAndPlay_def untilRetryDelay_def shouldSkipPlay_def shouldSkip_def)

text \<open>
  C2 for the maintenance flag. \<^verbatim>\<open>shouldSkipPlay\<close> lists idle timeout, multi-session and
  expiry but not maintenance, which \<^verbatim>\<open>NetworkConditions\<close> and \<^verbatim>\<open>loadAndPlayVideo\<close> both
  count. With only the maintenance flag set the re-evaluation is not skipped: it constructs
  handle 0, fails in \<^verbatim>\<open>loadAndPlayVideo\<close>, waits and calls the first retry.
\<close>

theorem maintenance_not_skipped:
  "isMaintenance (stateRefs underMaintenance)
   \<and> shouldSkipPlay underMaintenance = False
   \<and> log (fst (reevaluate settings rendersFrame underMaintenance)) =
       [AttemptLog 0, Construct 0, CallOnError NetworkConditions, SleepRetryDelay (Some 10)]
   \<and> live (fst (reevaluate settings rendersFrame underMaintenance)) = [0]
   \<and> snd (reevaluate settings rendersFrame underMaintenance) = Some 1"
  by code_simp

subsection \<open>C3: halting and restarting\<close>

text \<open>
  C3 says that after the retries are used up a new entry trigger starts a new attempt. The
  exhaustion branch sets \<^verbatim>\<open>isCanStream\<close> to false and returns without lowering
  \<^verbatim>\<open>isDoDestroyAndPlayRunning\<close>, which the success branch and the retry branch both lower.
  After three failed loads the chain has ended and the stream is marked unavailable; when
  the stream source then changes, the re-evaluation finds every reason to skip false but
  ``already running'', and does nothing.
\<close>

theorem halted_never_restarts:
  "snd (retryChain settings [loadFails, loadFails, loadFails] 0 (maxRetries settings) mounted) = Finished
   \<and> isCanStream halted = False
   \<and> shouldSkip (halted\<lparr>streams := Some [(''hd'', ''C'')]\<rparr>) =
       [(''No stream URL available'', False),
        (''Player not initialized'', False),
        (''doDestroyAndPlay already running'', True),
        (''Idle timeout active'', False),
        (''Multi-session detected'', False),
        (''Session expired'', False),
        (''Player not visible'', False)]
   \<and> snd (reevaluate settings rendersFrame (halted\<lparr>streams := Some [(''hd'', ''C'')]\<rparr>)) = None
   \<and> log (fst (reevaluate settings rendersFrame (halted\<lparr>streams := Some [(''hd'', ''C'')]\<rparr>)))
       = log halted"
  by code_simp

subsection \<open>C4: \<open>onPlay\<close> once per successful attempt\<close>

text \<open>
  C4 says \<^verbatim>\<open>onPlay\<close> is invoked exactly once per successful attempt. \<^verbatim>\<open>play()\<close> invokes it
  after \<^verbatim>\<open>resumeAndSetVolume\<close>, and \<^verbatim>\<open>doDestroyAndPlay\<close>, the only caller of \<^verbatim>\<open>play()\<close>,
  invokes it again after clearing the snapshot: the first successful attempt of the mounted
  hook calls it twice.
\<close>

theorem onPlay_called_twice:
  "log (fst (reevaluate settings rendersFrame mounted)) =
     [AttemptLog 0, Construct 0, Load 0 ''B'', FirstFrameLog 0, Resume 0, CallOnPlay,
      SetSnapshot [], CallOnPlay]
   \<and> count_list (log (fst (reevaluate settings rendersFrame mounted))) CallOnPlay = 2"
  by code_simp

subsection \<open>C10: network conditions in \<open>loadAndPlayVideo\<close>\<close>

text \<open>
  C10. If any of the four network-health flags of \<^verbatim>\<open>stateRefs.current\<close> is set when
  \<^verbatim>\<open>loadAndPlayVideo\<close> is called, the call rejects with the network-conditions error and
  leaves the state as it was: no listener is registered and no load is issued. If none is
  set, whatever the call ends with is not the network-conditions error.
\<close>

theorem loadAndPlayVideo_network_conditions:
  "(isIdleTimeout (stateRefs s) \<or> isExpired (stateRefs s) \<or> isMultiSession (stateRefs s)
      \<or> isMaintenance (stateRefs s)
    \<longrightarrow> loadAndPlayVideo env p source s = (Inl NetworkConditions, s))
   \<and> (\<not> isIdleTimeout (stateRefs s) \<and> \<not> isExpired (stateRefs s)
      \<and> \<not> isMultiSession (stateRefs s) \<and> \<not> isMaintenance (stateRefs s)
    \<longrightarrow> fst (loadAndPlayVideo env p source s) \<noteq> Inl NetworkConditions)"
  by (auto simp: loadAndPlayVideo_def networkFlags_def Let_def split: race_event.splits)

text \<open>
  Under maintenance the call is rejected and the hook untouched; on the healthy hook the
  same call, with a player that never renders, ends with the timeout error instead.
\<close>

theorem loadAndPlayVideo_network_conditions_witness:
  "isMaintenance (stateRefs underMaintenance)
   \<and> loadAndPlayVideo timesOut 0 ''B'' underMaintenance = (Inl NetworkConditions, underMaintenance)
   \<and> \<not> isMaintenance (stateRefs mounted)
   \<and> fst (loadAndPlayVideo timesOut 0 ''B'' mounted) = Inl FirstFrameTimeout"
  using loadAndPlayVideo_network_conditions [of underMaintenance timesOut 0 "''B''"]
    loadAndPlayVideo_network_conditions [of mounted timesOut 0 "''B''"]
  by (simp add: underMaintenance_def mounted_def healthy_def loadAndPlayVideo_def networkFlags_def
      timesOut_def rendersFrame_def)

end
